theory Spec2Isabelle
  imports
    Complex_Main
    "HOL-Library.Multiset"
    "HOL-Library.Char_ord"
    "HOL-Library.List_Lexorder"
begin

section \<open>PyUtil: the profiling utilities of \<open>profile.py\<close>\<close>

text \<open>
  The module turns the statistics of \<open>cProfile\<close> into a table, repeats a profiled call,
  aggregates the repetitions per function and plots the most expensive functions.

  Conventions of the embedding:
  \<^item> a Python \<open>int\<close> is an \<open>int\<close>, a \<open>str\<close> is a \<open>string\<close>;
  \<^item> a Python \<open>float\<close> is the real number it denotes, and every operation on floats is the
    exact operation followed by the rounding of IEEE 754 binary64 (\<open>fl64\<close> below: to the
    nearest float, ties to even). Sums are accumulated in row order. Overflow to \<open>inf\<close> is
    not modelled (no sum of profiling times reaches \<open>1.8e308\<close>), and a count converted to a
    float is taken as exact (counts stay below \<open>2^53\<close>). The special values that numpy
    produces on a division by zero (\<open>nan\<close>, \<open>inf\<close>) are modelled where they arise;
  \<^item> a raised exception is the \<open>Inl\<close> of a sum type, a returned value its \<open>Inr\<close>;
  \<^item> a data frame is the list of its rows, in row order.
\<close>

subsection \<open>Exceptions\<close>

datatype pyerror =
    AssertionError
  | UnboundLocalError
  | KeyError
  | NameError
  | IndexError
  | ValueError
  | OverflowError
  | ImportError string
  | Raised string

subsection \<open>Arithmetic on floats\<close>

text \<open>
  A float64 has a significand of 53 bits. The floats next to a real \<open>x\<close> with
  \<open>2^k \<le> |x| < 2^(k+1)\<close> are the multiples of \<open>2^(k-52)\<close>, and below the smallest normal
  number the multiples of \<open>2^(-1074)\<close>; \<open>x\<close> is rounded to the nearest of them, and to the
  one with an even significand when it lies half way.
\<close>

definition pow2 :: "int \<Rightarrow> real" where
  "pow2 e = (if 0 \<le> e then 2 ^ nat e else 1 / 2 ^ nat (- e))"

text \<open>The exponent \<open>k\<close> with \<open>2^k \<le> x < 2^(k+1)\<close>, for a positive \<open>x\<close>.\<close>

function ilog2 :: "real \<Rightarrow> int" where
  "ilog2 x = (if 2 \<le> x then ilog2 (x / 2) + 1
              else if 0 < x \<and> x < 1 then ilog2 (2 * x) - 1
              else 0)"
  by pat_completeness auto
termination
proof (relation "measure (\<lambda>x. if 1 \<le> x then nat \<lfloor>x\<rfloor> else nat \<lfloor>1 / x\<rfloor> + 1)")
  have half: "\<lfloor>y / 2\<rfloor> < \<lfloor>y\<rfloor>" if "2 \<le> y" for y :: real
  proof -
    have "y - 1 < real_of_int \<lfloor>y\<rfloor>"
      by linarith
    with that have "y / 2 < real_of_int \<lfloor>y\<rfloor>"
      by linarith
    then show ?thesis
      by (simp only: floor_less_iff)
  qed
  show "wf (measure (\<lambda>x::real. if 1 \<le> x then nat \<lfloor>x\<rfloor> else nat \<lfloor>1 / x\<rfloor> + 1))"
    by simp
  show "(x / 2, x) \<in> measure (\<lambda>x. if 1 \<le> x then nat \<lfloor>x\<rfloor> else nat \<lfloor>1 / x\<rfloor> + 1)"
    if big: "2 \<le> x" for x :: real
  proof -
    from big have "\<lfloor>x / 2\<rfloor> < \<lfloor>x\<rfloor>"
      by (rule half)
    moreover from big have "0 \<le> \<lfloor>x / 2\<rfloor>"
      by simp
    ultimately show ?thesis
      using big by simp
  qed
  show "(2 * x, x) \<in> measure (\<lambda>x. if 1 \<le> x then nat \<lfloor>x\<rfloor> else nat \<lfloor>1 / x\<rfloor> + 1)"
    if a: "\<not> 2 \<le> x" "0 < x \<and> x < 1" for x :: real
  proof (cases "1 \<le> 2 * x")
    case True
    with a have "\<lfloor>2 * x\<rfloor> = 1"
      by (simp add: floor_eq_iff)
    moreover from a have "1 \<le> \<lfloor>1 / x\<rfloor>"
      by (simp add: le_floor_iff)
    ultimately show ?thesis
      using a True by simp
  next
    case False
    with a have two: "2 \<le> 1 / x"
      by (simp add: field_simps)
    then have "\<lfloor>1 / x / 2\<rfloor> < \<lfloor>1 / x\<rfloor>"
      by (rule half)
    moreover from a have "0 \<le> \<lfloor>1 / x / 2\<rfloor>"
      by simp
    moreover have "1 / (2 * x) = 1 / x / 2"
      by simp
    ultimately show ?thesis
      using a False by (simp only: in_measure if_False) simp
  qed
qed

declare ilog2.simps [simp del]

text \<open>Rounding to the nearest integer, to the even one of two that are equally near.\<close>

definition round_even :: "real \<Rightarrow> int" where
  "round_even y =
     (let f = \<lfloor>y\<rfloor>; d = y - real_of_int f
      in if d < 1 / 2 then f
         else if 1 / 2 < d then f + 1
         else if even f then f else f + 1)"

definition fl64 :: "real \<Rightarrow> real" where
  "fl64 x =
     (if x = 0 then 0
      else let e = max (ilog2 \<bar>x\<bar> - 52) (- 1074)
           in real_of_int (round_even (x / pow2 e)) * pow2 e)"

text \<open>
  A sum of floats, accumulated from \<open>0.0\<close> in the order of the list. (numpy adds an
  array of fewer than eight floats in exactly this way, and a longer one in blocks; the
  properties below that hold for tables of every length do not depend on the grouping of
  the additions, and the sums that are evaluated have three terms at most.)
\<close>

definition np_sum :: "real list \<Rightarrow> real" where
  "np_sum xs = foldl (\<lambda>s x. fl64 (s + x)) 0 xs"

subsection \<open>\<open>str\<close> of an integer\<close>

definition digit_char :: "nat \<Rightarrow> char" where
  "digit_char d = ''0123456789'' ! d"

function str_nat :: "nat \<Rightarrow> string" where
  "str_nat n = (if n < 10 then [digit_char n] else str_nat (n div 10) @ [digit_char (n mod 10)])"
  by pat_completeness auto
termination
  by (relation "measure id") auto

declare str_nat.simps [simp del]

definition str_int :: "int \<Rightarrow> string" where
  "str_int i = (if i < 0 then CHR ''-'' # str_nat (nat (- i)) else str_nat (nat i))"

subsection \<open>The statistics of one profiling run\<close>

text \<open>
  \<open>stats.stats\<close> is a dictionary from \<open>(file, line, function)\<close> to
  \<open>(primitive calls, total calls, self time, cumulative time, callers)\<close>. The loader
  iterates over its items and reads the first four components of the value; the model keeps
  the items as a list, in iteration order, without the unused \<open>callers\<close>.
\<close>

type_synonym stats_key = "string \<times> int \<times> string"
type_synonym stats_val = "int \<times> int \<times> real \<times> real"
type_synonym stats = "(stats_key \<times> stats_val) list"

record row =
  ncalls :: int
  pcalls :: int
  tot_time :: real
  tot_time_per :: real
  cum_time :: real
  cum_time_per :: real
  file_name :: string
  line :: int
  func :: string
  flf :: string

text \<open>The composite label \<open>str(fl) + ':' + str(line) + '\n' + str(func) + '()'\<close>.\<close>

definition mk_flf :: "string \<Rightarrow> int \<Rightarrow> string \<Rightarrow> string" where
  "mk_flf fl lno fn = fl @ '':'' @ str_int lno @ [CHR 0x0A] @ fn @ ''()''"

text \<open>The row that one loop iteration appends, once its assertion has passed.\<close>

fun mk_row :: "stats_key \<times> stats_val \<Rightarrow> row" where
  "mk_row ((fl, lno, fn), (v0, v1, v2, v3)) =
     \<lparr> ncalls = v1, pcalls = v0,
       tot_time = v2, tot_time_per = (if v0 > 0 then fl64 (v2 / real_of_int v0) else 0),
       cum_time = v3, cum_time_per = (if v0 > 0 then fl64 (v3 / real_of_int v0) else 0),
       file_name = fl, line = lno, func = fn, flf = mk_flf fl lno fn \<rparr>"

text \<open>\<open>assert (pcalls <= ncalls)\<close>, on the entry's value.\<close>

fun consistent :: "stats_key \<times> stats_val \<Rightarrow> bool" where
  "consistent (k, (v0, v1, v2, v3)) = (v0 \<le> v1)"

text \<open>
  The loop of \<open>get_df_from_stats\<close>: \<open>rows\<close> is the list built so far; a failed assertion
  leaves the function with the exception, and no frame is built.
\<close>

fun collect_rows :: "stats \<Rightarrow> row list \<Rightarrow> pyerror + row list" where
  "collect_rows [] rows = Inr rows"
| "collect_rows (e # es) rows =
     (if consistent e then collect_rows es (rows @ [mk_row e]) else Inl AssertionError)"

definition get_df_from_stats :: "stats \<Rightarrow> pyerror + row list" where
  "get_df_from_stats s = collect_rows s []"

subsection \<open>The repeated-run profiler\<close>

text \<open>
  \<open>ProfilerWithStatistics.run\<close>. What one repetition does outside this module (creating the
  profiler, calling \<open>function_name\<close>, reading \<open>pstats.Stats(pr).strip_dirs()\<close>) is the
  parameter \<open>profile\<close>: \<open>profile rep\<close> is \<open>Inl e\<close> when the call of repetition \<open>rep\<close> raises
  \<open>e\<close>, and otherwise \<open>Inr s\<close> with the statistics \<open>s\<close> that the profiler of that repetition
  holds. The local variables \<open>df\<close> and \<open>pr\<close> are unbound until the first assignment.
\<close>

record run_locals =
  first_run :: bool
  df :: "row list option"
  pr :: "stats option"

definition xrange :: "int \<Rightarrow> nat list" where
  "xrange n = [0 ..< nat n]"

fun run_loop :: "(nat \<Rightarrow> pyerror + stats) \<Rightarrow> nat list \<Rightarrow> run_locals \<Rightarrow> pyerror + run_locals" where
  "run_loop profile [] st = Inr st"
| "run_loop profile (rep # reps) st =
     (case profile rep of
        Inl e \<Rightarrow> Inl e
      | Inr s \<Rightarrow>
          (case get_df_from_stats s of
             Inl e \<Rightarrow> Inl e
           | Inr df_new \<Rightarrow>
               if first_run st
               then run_loop profile reps \<lparr> first_run = False, df = Some df_new, pr = Some s \<rparr>
               else (case df st of
                       None \<Rightarrow> Inl UnboundLocalError
                     | Some df_old \<Rightarrow>
                         run_loop profile reps (st \<lparr> df := Some (df_old @ df_new), pr := Some s \<rparr>))))"

definition run :: "int \<Rightarrow> (nat \<Rightarrow> pyerror + stats) \<Rightarrow> pyerror + (row list \<times> stats)" where
  "run n_reps profile =
     (case run_loop profile (xrange n_reps) \<lparr> first_run = True, df = None, pr = None \<rparr> of
        Inl e \<Rightarrow> Inl e
      | Inr st \<Rightarrow>
          (case df st of
             None \<Rightarrow> Inl UnboundLocalError
           | Some d \<Rightarrow>
               (case pr st of
                  None \<Rightarrow> Inl UnboundLocalError
                | Some s \<Rightarrow> Inr (d, s))))"

subsection \<open>Aggregation\<close>

text \<open>
  The numeric columns of the table: the ones \<open>groupby(['flf']).agg([np.mean, np.std, 'count'])\<close>
  aggregates. A column of integers is averaged as numbers.
\<close>

datatype column = Ncalls | Pcalls | Tot_time | Tot_time_per | Cum_time | Cum_time_per | Line

fun cell :: "column \<Rightarrow> row \<Rightarrow> real" where
  "cell Ncalls r = real_of_int (ncalls r)"
| "cell Pcalls r = real_of_int (pcalls r)"
| "cell Tot_time r = tot_time r"
| "cell Tot_time_per r = tot_time_per r"
| "cell Cum_time r = cum_time r"
| "cell Cum_time_per r = cum_time_per r"
| "cell Line r = real_of_int (line r)"

text \<open>A float of numpy: a number, or one of the special values.\<close>

datatype npfloat = Num real | PosInf | NegInf | NaN

text \<open>
  The mean of a group: pandas adds the values of the group's rows one after the other, in
  row order, and divides the sum by their number.
\<close>

definition np_mean :: "real list \<Rightarrow> real" where
  "np_mean xs = fl64 (np_sum xs / real (length xs))"

text \<open>
  pandas replaces \<open>np.std\<close> inside \<open>agg\<close> by its own \<open>std\<close>, the sample standard deviation
  (\<open>ddof = 1\<close>), which is \<open>nan\<close> for a group of one row. The squared deviations from the
  mean are added in row order.
\<close>

definition np_std :: "real list \<Rightarrow> npfloat" where
  "np_std xs =
     (if length xs \<le> 1 then NaN
      else Num (fl64 (sqrt (fl64 (np_sum (map (\<lambda>x. fl64 (fl64 (x - np_mean xs) * fl64 (x - np_mean xs))) xs)
                                   / real (length xs - 1))))))"

record agg =
  mean :: real
  std :: npfloat
  cnt :: nat

definition agg_of :: "real list \<Rightarrow> agg" where
  "agg_of xs = \<lparr> mean = np_mean xs, std = np_std xs, cnt = length xs \<rparr>"

text \<open>A row of the aggregated table: the label, and per numeric column its three statistics.\<close>

record agg_row =
  label :: string
  stat :: "column \<Rightarrow> agg"

definition group_rows :: "string \<Rightarrow> row list \<Rightarrow> row list" where
  "group_rows k tbl = filter (\<lambda>r. flf r = k) tbl"

definition agg_group :: "row list \<Rightarrow> string \<Rightarrow> agg_row" where
  "agg_group tbl k = \<lparr> label = k, stat = (\<lambda>c. agg_of (map (cell c) (group_rows k tbl))) \<rparr>"

text \<open>\<open>groupby\<close> sorts the group keys (\<open>sort=True\<close> is its default): one group per label.\<close>

definition group_keys :: "row list \<Rightarrow> string list" where
  "group_keys tbl = sort (remdups (map flf tbl))"

definition aggregate_profiling_df :: "row list \<Rightarrow> agg_row list" where
  "aggregate_profiling_df tbl = map (agg_group tbl) (group_keys tbl)"

subsection \<open>Aggregation on the store\<close>

text \<open>
  Whether \<open>aggregate_profiling_df\<close> changes the frame it is given is a question about
  objects, so the frames live in a store: an address is an index into the list of objects,
  and a new object is appended. \<open>groupby(...).agg(...)\<close> and \<open>reset_index()\<close> (whose
  \<open>inplace\<close> is left at \<open>False\<close>) each build a new frame; the assignments to the local
  name \<open>df\<close> rebind the name only. The model does not distinguish the index of a frame from
  its columns, so \<open>reset_index\<close> copies the rows. The documented argument is a profiling
  table; for any other object the model answers \<open>KeyError\<close> (no column \<open>flf\<close> to group by).
\<close>

datatype frame = Profile_table "row list" | Aggregated_table "agg_row list"

type_synonym store = "frame list"

definition alloc :: "store \<Rightarrow> frame \<Rightarrow> store \<times> nat" where
  "alloc h v = (h @ [v], length h)"

definition groupby_agg :: "store \<Rightarrow> nat \<Rightarrow> pyerror + (store \<times> nat)" where
  "groupby_agg h a =
     (if a < length h
      then (case h ! a of
              Profile_table tbl \<Rightarrow> Inr (alloc h (Aggregated_table (aggregate_profiling_df tbl)))
            | Aggregated_table _ \<Rightarrow> Inl KeyError)
      else Inl KeyError)"

definition reset_index :: "store \<Rightarrow> nat \<Rightarrow> pyerror + (store \<times> nat)" where
  "reset_index h a =
     (if a < length h
      then (case h ! a of
              Aggregated_table rows \<Rightarrow> Inr (alloc h (Aggregated_table rows))
            | Profile_table tbl \<Rightarrow> Inr (alloc h (Profile_table tbl)))
      else Inl KeyError)"

definition aggregate_profiling_df_store :: "store \<Rightarrow> nat \<Rightarrow> pyerror + (store \<times> nat)" where
  "aggregate_profiling_df_store h a =
     (case groupby_agg h a of
        Inl e \<Rightarrow> Inl e
      | Inr (h1, a1) \<Rightarrow> reset_index h1 a1)"

subsection \<open>Loading the module\<close>

text \<open>
  The import statements at the top of the module, in their order. \<open>importable m\<close> says
  whether module \<open>m\<close> can be imported, \<open>style_ok\<close> whether the three styling calls of the
  \<open>try\<close> body return. The handler is a bare \<open>except:\<close> whose body is the expression
  statement \<open>ImportError('seaborn not found, plotting not available')\<close>: the exception
  object is built and dropped. \<open>discarded\<close> lists the objects so dropped, \<open>emitted\<close> what
  the module has written as a warning or log message, \<open>sns_bound\<close> whether the name \<open>sns\<close>
  is bound afterwards.
\<close>

record module_env =
  sns_bound :: bool
  discarded :: "pyerror list"
  emitted :: "string list"

fun import_all :: "(string \<Rightarrow> bool) \<Rightarrow> string list \<Rightarrow> pyerror + unit" where
  "import_all importable [] = Inr ()"
| "import_all importable (m # ms) =
     (if importable m then import_all importable ms else Inl (ImportError m))"

definition try_body :: "(string \<Rightarrow> bool) \<Rightarrow> bool \<Rightarrow> pyerror + unit" where
  "try_body importable style_ok =
     (case import_all importable [''seaborn''] of
        Inl e \<Rightarrow> Inl e
      | Inr _ \<Rightarrow> if style_ok then Inr () else Inl (Raised ''seaborn''))"

definition guarded_import :: "(string \<Rightarrow> bool) \<Rightarrow> bool \<Rightarrow> module_env" where
  "guarded_import importable style_ok =
     (case try_body importable style_ok of
        Inr _ \<Rightarrow> \<lparr> sns_bound = True, discarded = [], emitted = [] \<rparr>
      | Inl e \<Rightarrow>
          \<lparr> sns_bound = importable ''seaborn'',
            discarded = [ImportError ''seaborn not found, plotting not available''],
            emitted = [] \<rparr>)"

definition load_module :: "(string \<Rightarrow> bool) \<Rightarrow> bool \<Rightarrow> pyerror + module_env" where
  "load_module importable style_ok =
     (case import_all importable [''numpy'', ''pandas''] of
        Inl e \<Rightarrow> Inl e
      | Inr _ \<Rightarrow>
          (let env = guarded_import importable style_ok
           in (case import_all importable [''matplotlib.pyplot'', ''cProfile'', ''pstats''] of
                 Inl e \<Rightarrow> Inl e
               | Inr _ \<Rightarrow> Inr env)))"

subsection \<open>The ranked bar chart\<close>

text \<open>The column that \<open>(sort_criterium, 'mean')\<close> names; an unknown name is a \<open>KeyError\<close>.\<close>

definition column_of_name :: "string \<Rightarrow> column option" where
  "column_of_name s =
     (if s = ''ncalls'' then Some Ncalls
      else if s = ''pcalls'' then Some Pcalls
      else if s = ''tot_time'' then Some Tot_time
      else if s = ''tot_time_per'' then Some Tot_time_per
      else if s = ''cum_time'' then Some Cum_time
      else if s = ''cum_time_per'' then Some Cum_time_per
      else if s = ''line'' then Some Line
      else None)"

definition col_mean :: "column \<Rightarrow> agg_row \<Rightarrow> real" where
  "col_mean c r = mean (stat r c)"

text \<open>
  \<open>df.sort(columns=[s_c], ascending=False)\<close>: pandas reverses the rows, sorts them
  ascending and reverses the result. The sort is taken to be stable (numpy's default
  \<open>quicksort\<close> is, on the short tables of a profile; in general the order of rows with
  equal keys is not fixed by numpy).
\<close>

definition sort_desc :: "('a \<Rightarrow> real) \<Rightarrow> 'a list \<Rightarrow> 'a list" where
  "sort_desc k xs = rev (sort_key k (rev xs))"

text \<open>\<open>.iloc[0:n]\<close>: a negative \<open>n\<close> counts from the end.\<close>

definition iloc_upto :: "int \<Rightarrow> 'a list \<Rightarrow> 'a list" where
  "iloc_upto n xs = (if 0 \<le> n then take (nat n) xs else take (length xs - nat (- n)) xs)"

text \<open>
  \<open>df[tt].sum()\<close> adds the column in the order of the table's rows, \<open>data[tt].sum()\<close> in the
  order of the sorted rows.
\<close>

definition total_time :: "agg_row list \<Rightarrow> real" where
  "total_time tbl = np_sum (map (col_mean Tot_time) tbl)"

definition top_n :: "agg_row list \<Rightarrow> int \<Rightarrow> column \<Rightarrow> agg_row list" where
  "top_n tbl n s_c = iloc_upto n (sort_desc (col_mean s_c) tbl)"

definition topn_time :: "agg_row list \<Rightarrow> int \<Rightarrow> column \<Rightarrow> real" where
  "topn_time tbl n s_c = np_sum (map (col_mean Tot_time) (top_n tbl n s_c))"

text \<open>The quotient of two numpy floats: a zero divisor gives \<open>nan\<close> or an infinity, with a warning.\<close>

definition np_div :: "real \<Rightarrow> real \<Rightarrow> npfloat" where
  "np_div a b =
     (if b \<noteq> 0 then Num (fl64 (a / b))
      else if a = 0 then NaN
      else if 0 < a then PosInf else NegInf)"

definition frac_time :: "agg_row list \<Rightarrow> int \<Rightarrow> column \<Rightarrow> npfloat" where
  "frac_time tbl n s_c = np_div (topn_time tbl n s_c) (total_time tbl)"

fun np_times :: "real \<Rightarrow> npfloat \<Rightarrow> npfloat" where
  "np_times c (Num x) = Num (fl64 (c * x))"
| "np_times c PosInf = (if 0 < c then PosInf else if c < 0 then NegInf else NaN)"
| "np_times c NegInf = (if 0 < c then NegInf else if c < 0 then PosInf else NaN)"
| "np_times c NaN = NaN"

text \<open>\<open>int(x)\<close> truncates towards zero and raises on the special values.\<close>

fun py_int :: "npfloat \<Rightarrow> pyerror + int" where
  "py_int (Num x) = Inr (if 0 \<le> x then \<lfloor>x\<rfloor> else \<lceil>x\<rceil>)"
| "py_int NaN = Inl ValueError"
| "py_int PosInf = Inl OverflowError"
| "py_int NegInf = Inl OverflowError"

text \<open>
  What the returned figure shows: the rows that are drawn as bars, the error bars when
  they are asked for, the label of the x axis and the annotation.
\<close>

record figure =
  bars :: "agg_row list"
  xerr :: "npfloat list option"
  xlabel :: string
  annotation :: string

text \<open>
  \<open>barplot_top_n_functions\<close>. The lookups of lines 40 to 45 come first, then the calls
  into \<open>sns\<close> (a \<open>NameError\<close> when the import of seaborn has failed), then \<open>ax.patches[0]\<close>
  (an \<open>IndexError\<close> when no bar was drawn), then the annotation.
\<close>

definition barplot_top_n_functions ::
    "module_env \<Rightarrow> agg_row list \<Rightarrow> int \<Rightarrow> string \<Rightarrow> bool \<Rightarrow> pyerror + figure" where
  "barplot_top_n_functions env tbl n sort_criterium show_std =
     (case column_of_name sort_criterium of
        None \<Rightarrow> Inl KeyError
      | Some s_c \<Rightarrow>
          let data = top_n tbl n s_c;
              frac = frac_time tbl n s_c;
              errs = (if show_std then Some (map (\<lambda>r. std (stat r s_c)) data) else None)
          in if \<not> sns_bound env then Inl NameError
             else if data = [] then Inl IndexError
             else (case py_int (np_times 100 frac) of
                     Inl e \<Rightarrow> Inl e
                   | Inr p \<Rightarrow>
                       Inr \<lparr> bars = data, xerr = errs,
                             xlabel = sort_criterium @ '' [s]'',
                             annotation = str_int p @ ''% of total runtime'' \<rparr>))"

section \<open>Properties\<close>

subsection \<open>Rounding\<close>



lemma fl64_zero: "fl64 0 = 0"
  by (simp add: fl64_def)





text \<open>The equations that evaluate \<open>fl64\<close> on a given number.\<close>

lemmas fl64_eval = fl64_def ilog2.simps round_even_def pow2_def Let_def

lemma fl64_halves: "fl64 (1 / 2) = 1 / 2" "fl64 (5 / 2) = 5 / 2"
  by (simp_all add: fl64_eval)

lemma fl64_ints:
  "fl64 1 = 1" "fl64 2 = 2" "fl64 3 = 3" "fl64 4 = 4" "fl64 5 = 5" "fl64 6 = 6" "fl64 7 = 7"
  "fl64 8 = 8" "fl64 9 = 9" "fl64 10 = 10" "fl64 12 = 12" "fl64 (- 2) = - 2"
  by (simp_all add: fl64_eval)

lemma np_mean_single:
  assumes "fl64 x = x"
  shows "np_mean [x] = x"
  by (simp add: np_mean_def np_sum_def assms)

lemma np_std_single: "np_std [x] = NaN"
  by (simp add: np_std_def)

subsection \<open>The sample loader\<close>

lemma collect_rows_eq:
  "collect_rows s acc = (if list_all consistent s then Inr (acc @ map mk_row s) else Inl AssertionError)"
  by (induction s arbitrary: acc) simp_all

lemma get_df_from_stats_eq:
  "get_df_from_stats s = (if list_all consistent s then Inr (map mk_row s) else Inl AssertionError)"
  by (simp add: get_df_from_stats_def collect_rows_eq)

text \<open>
  Claim C2. For every entry that the loader converts, with a primitive call count that is
  a count (not negative): the per-call self time of its row is the total self time
  divided by the primitive call count (the quotient of floats, so rounded once) when that
  count is not zero, and exactly 0 when it is 0; likewise the per-call cumulative time,
  from the total cumulative time. (The guard of the source is \<open>v[0] > 0\<close>: a negative
  count, which no profiler reports, would give 0.)
\<close>

theorem loader_per_call_times:
  assumes "get_df_from_stats s = Inr rows"
    and "i < length s"
    and "s ! i = (k, (v0, v1, v2, v3))"
    and "0 \<le> v0"
  shows "length rows = length s
       \<and> pcalls (rows ! i) = v0 \<and> tot_time (rows ! i) = v2 \<and> cum_time (rows ! i) = v3
       \<and> tot_time_per (rows ! i) = (if v0 \<noteq> 0 then fl64 (v2 / real_of_int v0) else 0)
       \<and> cum_time_per (rows ! i) = (if v0 \<noteq> 0 then fl64 (v3 / real_of_int v0) else 0)"
proof -
  from assms(1) have rows: "rows = map mk_row s"
    by (simp add: get_df_from_stats_eq split: if_splits)
  obtain fl lno fn where k: "k = (fl, lno, fn)"
    by (cases k) auto
  from assms(2,3) have "rows ! i = mk_row ((fl, lno, fn), (v0, v1, v2, v3))"
    by (simp add: rows k)
  with assms(4) show ?thesis
    by (simp add: rows)
qed

theorem loader_per_call_times_witness:
  "get_df_from_stats [((''m.py'', 1, ''f''), (2, 3, 1, 5)), ((''m.py'', 7, ''g''), (0, 0, 0, 0))]
     = Inr [mk_row ((''m.py'', 1, ''f''), (2, 3, 1, 5)), mk_row ((''m.py'', 7, ''g''), (0, 0, 0, 0))]
   \<and> tot_time_per (mk_row ((''m.py'', 1, ''f''), (2, 3, 1, 5))) = 1 / 2
   \<and> cum_time_per (mk_row ((''m.py'', 1, ''f''), (2, 3, 1, 5))) = 5 / 2
   \<and> tot_time_per (mk_row ((''m.py'', 7, ''g''), (0, 0, 0, 0))) = 0
   \<and> cum_time_per (mk_row ((''m.py'', 7, ''g''), (0, 0, 0, 0))) = 0"
proof -
  let ?s = "[((''m.py'', 1, ''f''), (2, 3, 1, 5)), ((''m.py'', 7, ''g''), (0::int, 0::int, 0::real, 0::real))]"
  have run: "get_df_from_stats ?s = Inr (map mk_row ?s)"
    by (simp add: get_df_from_stats_def)
  from loader_per_call_times [OF run, of 0 "(''m.py'', 1, ''f'')" 2 3 1 5]
       loader_per_call_times [OF run, of 1 "(''m.py'', 7, ''g'')" 0 0 0 0]
  show ?thesis
    using run by (simp add: fl64_halves)
qed

text \<open>
  Claim C3. If some entry has more primitive calls than total calls, the loader ends with
  the assertion's exception: no table, and no error value, is returned. If every entry has
  at most as many primitive calls as total calls, the assertion never fails and the loader
  returns the table, one row per entry.
\<close>

theorem loader_assertion:
  "(\<forall>k v0 v1 v2 v3. (k, (v0, v1, v2, v3)) \<in> set s \<and> v1 < v0
       \<longrightarrow> get_df_from_stats s = Inl AssertionError)
   \<and> ((\<forall>k v0 v1 v2 v3. (k, (v0, v1, v2, v3)) \<in> set s \<longrightarrow> v0 \<le> v1)
       \<longrightarrow> get_df_from_stats s = Inr (map mk_row s))"
proof (intro conjI allI impI)
  fix k v0 v1 v2 v3
  assume "(k, (v0, v1, v2, v3)) \<in> set s \<and> v1 < v0"
  then have "(k, (v0, v1, v2, v3)) \<in> set s" and "\<not> consistent (k, (v0, v1, v2, v3))"
    by simp_all
  then have "\<not> list_all consistent s"
    unfolding list_all_iff by blast
  then show "get_df_from_stats s = Inl AssertionError"
    by (simp add: get_df_from_stats_eq)
next
  assume ok: "\<forall>k v0 v1 v2 v3. (k, (v0, v1, v2, v3)) \<in> set s \<longrightarrow> v0 \<le> v1"
  have "consistent e" if "e \<in> set s" for e
  proof -
    obtain k v0 v1 v2 v3 where e: "e = (k, (v0, v1, v2, v3))"
      by (cases e rule: consistent.cases)
    with that ok have "v0 \<le> v1"
      by blast
    then show ?thesis
      by (simp add: e)
  qed
  then have "list_all consistent s"
    unfolding list_all_iff by blast
  then show "get_df_from_stats s = Inr (map mk_row s)"
    by (simp add: get_df_from_stats_eq)
qed

theorem loader_assertion_witness:
  "get_df_from_stats [((''m.py'', 1, ''f''), (1, 1, 2, 2)), ((''m.py'', 7, ''g''), (4, 3, 1, 1))]
     = Inl AssertionError
   \<and> get_df_from_stats [((''m.py'', 1, ''f''), (1, 1, 2, 2)), ((''m.py'', 7, ''g''), (3, 4, 1, 1))]
     = Inr [mk_row ((''m.py'', 1, ''f''), (1, 1, 2, 2)), mk_row ((''m.py'', 7, ''g''), (3, 4, 1, 1))]"
proof -
  let ?bad = "[((''m.py'', 1, ''f''), (1::int, 1::int, 2::real, 2::real)), ((''m.py'', 7, ''g''), (4, 3, 1, 1))]"
  let ?good = "[((''m.py'', 1, ''f''), (1::int, 1::int, 2::real, 2::real)), ((''m.py'', 7, ''g''), (3, 4, 1, 1))]"
  have bad: "((''m.py'', 7, ''g''), (4::int, 3::int, 1::real, 1::real)) \<in> set ?bad \<and> (3::int) < 4"
    by simp
  have good: "\<forall>k v0 v1 v2 v3. (k, (v0, v1, v2, v3)) \<in> set ?good \<longrightarrow> v0 \<le> v1"
    by auto
  from loader_assertion [of ?bad] bad have "get_df_from_stats ?bad = Inl AssertionError"
    by blast
  moreover from loader_assertion [of ?good] good have "get_df_from_stats ?good = Inr (map mk_row ?good)"
    by blast
  ultimately show ?thesis
    by simp
qed

subsection \<open>The repeated-run profiler\<close>

lemma run_loop_later:
  assumes "\<not> first_run st" and "df st = Some d"
    and "\<forall>i \<in> set reps. profile i = Inr (obs i) \<and> list_all consistent (obs i)"
  shows "run_loop profile reps st =
           Inr (st \<lparr> df := Some (d @ concat (map (\<lambda>i. map mk_row (obs i)) reps)),
                     pr := (if reps = [] then pr st else Some (obs (last reps))) \<rparr>)"
  using assms
proof (induction reps arbitrary: st d)
  case Nil
  then show ?case by simp
next
  case (Cons rep reps)
  let ?st = "st \<lparr> df := Some (d @ map mk_row (obs rep)), pr := Some (obs rep) \<rparr>"
  from Cons.prems have step: "run_loop profile (rep # reps) st = run_loop profile reps ?st"
    by (simp add: get_df_from_stats_eq)
  have "run_loop profile reps ?st =
          Inr (?st \<lparr> df := Some ((d @ map mk_row (obs rep)) @ concat (map (\<lambda>i. map mk_row (obs i)) reps)),
                      pr := (if reps = [] then pr ?st else Some (obs (last reps))) \<rparr>)"
    using Cons.prems by (intro Cons.IH) simp_all
  with step show ?case
    by simp
qed

lemma run_loop_first:
  assumes "\<forall>i \<in> set (rep # reps). profile i = Inr (obs i) \<and> list_all consistent (obs i)"
  shows "run_loop profile (rep # reps) \<lparr> first_run = True, df = None, pr = None \<rparr> =
           Inr \<lparr> first_run = False,
                 df = Some (concat (map (\<lambda>i. map mk_row (obs i)) (rep # reps))),
                 pr = Some (obs (last (rep # reps))) \<rparr>"
proof -
  let ?st = "\<lparr> first_run = False, df = Some (map mk_row (obs rep)), pr = Some (obs rep) \<rparr>"
  from assms have "run_loop profile (rep # reps) \<lparr> first_run = True, df = None, pr = None \<rparr>
      = run_loop profile reps ?st"
    by (simp add: get_df_from_stats_eq)
  also have "\<dots> = Inr (?st \<lparr> df := Some (map mk_row (obs rep) @ concat (map (\<lambda>i. map mk_row (obs i)) reps)),
                      pr := (if reps = [] then pr ?st else Some (obs (last reps))) \<rparr>)"
    using assms by (intro run_loop_later) simp_all
  finally show ?thesis
    by simp
qed

lemma length_concat_const:
  assumes "\<forall>i \<in> set xs. length (f i) = K"
  shows "length (concat (map f xs)) = length xs * K"
  using assms by (induction xs) simp_all

text \<open>
  Claim C4. With \<open>n_reps = R \<ge> 1\<close> and a callable that returns on every repetition, the
  profile of each repetition holding \<open>K\<close> entries (the items of a dictionary: \<open>K\<close> distinct
  functions) that pass the loader's assertion: \<open>run\<close> returns the rows of repetitions
  \<open>0, \<dots>, R - 1\<close> one after the other, nothing merged or dropped, \<open>R * K\<close> rows in all, and
  with them the statistics of the last repetition alone.
\<close>

theorem run_row_count:
  assumes "1 \<le> R"
    and "\<forall>i < nat R. profile i = Inr (obs i) \<and> length (obs i) = K \<and> list_all consistent (obs i)"
  shows "run R profile = Inr (concat (map (\<lambda>i. map mk_row (obs i)) [0 ..< nat R]), obs (nat R - 1))
       \<and> length (concat (map (\<lambda>i. map mk_row (obs i)) [0 ..< nat R])) = nat R * K"
proof -
  from assms(1) obtain m where m: "nat R = Suc m"
    by (cases "nat R") auto
  have range: "[0 ..< Suc m] = 0 # [Suc 0 ..< Suc m]"
    by (rule upt_conv_Cons) simp
  have good: "\<forall>i \<in> set (0 # [Suc 0 ..< Suc m]). profile i = Inr (obs i) \<and> list_all consistent (obs i)"
    using assms(2) m by auto
  have last: "last (0 # [Suc 0 ..< Suc m]) = m"
    by (cases m) simp_all
  have "run R profile = Inr (concat (map (\<lambda>i. map mk_row (obs i)) (0 # [Suc 0 ..< Suc m])), obs m)"
    unfolding run_def xrange_def m range
    by (simp only: run_loop_first [OF good] last) simp
  then have first: "run R profile = Inr (concat (map (\<lambda>i. map mk_row (obs i)) [0 ..< nat R]), obs (nat R - 1))"
    by (simp only: m range diff_Suc_1)
  have "\<forall>i \<in> set [0 ..< nat R]. length (map mk_row (obs i)) = K"
    using assms(2) by simp
  then have "length (concat (map (\<lambda>i. map mk_row (obs i)) [0 ..< nat R])) = length [0 ..< nat R] * K"
    by (rule length_concat_const)
  with first show ?thesis
    by simp
qed

theorem run_row_count_witness:
  "run 2 (\<lambda>i. Inr [((''m.py'', 1, ''f''), (1, 1, real i, 2)), ((''m.py'', 7, ''g''), (2, 3, 1, 1))])
     = Inr ([mk_row ((''m.py'', 1, ''f''), (1, 1, 0, 2)), mk_row ((''m.py'', 7, ''g''), (2, 3, 1, 1)),
             mk_row ((''m.py'', 1, ''f''), (1, 1, 1, 2)), mk_row ((''m.py'', 7, ''g''), (2, 3, 1, 1))],
            [((''m.py'', 1, ''f''), (1, 1, 1, 2)), ((''m.py'', 7, ''g''), (2, 3, 1, 1))])"
proof -
  let ?obs = "\<lambda>i::nat. [((''m.py'', 1::int, ''f''), (1::int, 1::int, real i, 2::real)),
                        ((''m.py'', 7, ''g''), (2, 3, 1, 1))]"
  have reps: "(1::int) \<le> 2"
    by simp
  have runs: "\<forall>i < nat 2. Inr (?obs i) = (Inr (?obs i) :: pyerror + stats) \<and> length (?obs i) = 2
                \<and> list_all consistent (?obs i)"
    by simp
  have range: "[0 ..< (2::nat)] = [0, 1]"
    by (simp add: upt_rec)
  from run_row_count [of 2 "\<lambda>i. Inr (?obs i)" ?obs 2, OF reps runs] show ?thesis
    by (simp add: range)
qed

text \<open>
  Claim C10. With \<open>n_reps = 0\<close> the loop body never runs, \<open>df\<close> is unbound at the
  \<open>return\<close>, and \<open>run\<close> raises instead of returning a table.
\<close>

theorem run_zero_reps: "run 0 profile = Inl UnboundLocalError"
  by (simp add: run_def xrange_def)

subsection \<open>Aggregation by label\<close>

lemma group_keys_mset_cong:
  assumes "mset tbl' = mset tbl"
  shows "group_keys tbl' = group_keys tbl"
proof -
  from assms have "set tbl' = set tbl"
    by (rule mset_eq_setD)
  then have "set (map flf tbl') = set (map flf tbl)"
    by simp
  then have "sorted_list_of_set (set (map flf tbl')) = sorted_list_of_set (set (map flf tbl))"
    by simp
  then show ?thesis
    by (simp only: group_keys_def sorted_list_of_set_sort_remdups)
qed

lemma labels_group_rows: "set (map flf tbl) = {k. group_rows k tbl \<noteq> []}"
  by (auto simp: group_rows_def filter_empty_conv)

lemma group_keys_group_rows_cong:
  assumes "\<forall>k. group_rows k tbl' = group_rows k tbl"
  shows "group_keys tbl' = group_keys tbl"
proof -
  from assms have "set (map flf tbl') = set (map flf tbl)"
    by (simp only: labels_group_rows)
  then have "sorted_list_of_set (set (map flf tbl')) = sorted_list_of_set (set (map flf tbl))"
    by simp
  then show ?thesis
    by (simp only: group_keys_def sorted_list_of_set_sort_remdups)
qed

lemma length_group_rows_mset_cong:
  assumes "mset tbl' = mset tbl"
  shows "length (group_rows k tbl') = length (group_rows k tbl)"
proof -
  have "mset (group_rows k tbl') = mset (group_rows k tbl)"
    by (simp add: group_rows_def assms)
  then show ?thesis
    by (rule mset_eq_length)
qed

lemma group_keys_props:
  "distinct (group_keys tbl)" "sorted (group_keys tbl)" "set (group_keys tbl) = flf ` set tbl"
  by (simp_all add: group_keys_def)

lemma labels_aggregate: "map label (aggregate_profiling_df tbl) = group_keys tbl"
  by (simp add: aggregate_profiling_df_def agg_group_def comp_def)

lemma counts_aggregate:
  "map (\<lambda>g. cnt (stat g c)) (aggregate_profiling_df tbl)
     = map (\<lambda>k. length (group_rows k tbl)) (group_keys tbl)"
  by (simp add: aggregate_profiling_df_def agg_group_def agg_of_def comp_def)

text \<open>
  Claim C5, as the code has it. Aggregation groups the rows by their composite label
  only: its result has one row per composite label that occurs in the table, no label
  twice, and for every numeric column the row holds the mean, the standard deviation and
  the number of the table's rows with that label, taken in the order of the table. Under
  every permutation of the rows the labels and the counts stay the same. The whole result
  stays the same when the rows of every label keep their order among themselves.
\<close>

theorem aggregate_by_label:
  "(mset tbl' = mset tbl \<longrightarrow>
        map label (aggregate_profiling_df tbl') = map label (aggregate_profiling_df tbl)
      \<and> (\<forall>c. map (\<lambda>g. cnt (stat g c)) (aggregate_profiling_df tbl')
               = map (\<lambda>g. cnt (stat g c)) (aggregate_profiling_df tbl)))
   \<and> ((\<forall>k. filter (\<lambda>r. flf r = k) tbl' = filter (\<lambda>r. flf r = k) tbl)
        \<longrightarrow> aggregate_profiling_df tbl' = aggregate_profiling_df tbl)
   \<and> distinct (map label (aggregate_profiling_df tbl))
   \<and> set (map label (aggregate_profiling_df tbl)) = flf ` set tbl
   \<and> (\<forall>g \<in> set (aggregate_profiling_df tbl). \<forall>c.
         mean (stat g c) = np_mean (map (cell c) (filter (\<lambda>r. flf r = label g) tbl))
       \<and> std (stat g c) = np_std (map (cell c) (filter (\<lambda>r. flf r = label g) tbl))
       \<and> cnt (stat g c) = length (filter (\<lambda>r. flf r = label g) tbl)
       \<and> 0 < cnt (stat g c))"
proof (intro conjI impI ballI allI)
  assume same: "mset tbl' = mset tbl"
  then have keys: "group_keys tbl' = group_keys tbl"
    by (rule group_keys_mset_cong)
  then show "map label (aggregate_profiling_df tbl') = map label (aggregate_profiling_df tbl)"
    by (simp only: labels_aggregate)
  fix c
  have "(\<lambda>k. length (group_rows k tbl')) = (\<lambda>k. length (group_rows k tbl))"
    using length_group_rows_mset_cong [OF same] by (rule ext)
  with keys show "map (\<lambda>g. cnt (stat g c)) (aggregate_profiling_df tbl')
               = map (\<lambda>g. cnt (stat g c)) (aggregate_profiling_df tbl)"
    by (simp only: counts_aggregate)
next
  assume "\<forall>k. filter (\<lambda>r. flf r = k) tbl' = filter (\<lambda>r. flf r = k) tbl"
  then have groups: "\<forall>k. group_rows k tbl' = group_rows k tbl"
    unfolding group_rows_def .
  then have "group_keys tbl' = group_keys tbl"
    by (rule group_keys_group_rows_cong)
  moreover from groups have "agg_group tbl' = agg_group tbl"
    by (intro ext) (simp add: agg_group_def)
  ultimately show "aggregate_profiling_df tbl' = aggregate_profiling_df tbl"
    by (simp only: aggregate_profiling_df_def)
next
  show "distinct (map label (aggregate_profiling_df tbl))"
    by (simp only: labels_aggregate group_keys_props)
next
  show "set (map label (aggregate_profiling_df tbl)) = flf ` set tbl"
    by (simp only: labels_aggregate group_keys_props)
next
  fix g c
  assume "g \<in> set (aggregate_profiling_df tbl)"
  then obtain k where k: "k \<in> set (group_keys tbl)" and g: "g = agg_group tbl k"
    by (auto simp: aggregate_profiling_df_def)
  from k have "k \<in> flf ` set tbl"
    by (simp only: group_keys_props)
  then have nonempty: "filter (\<lambda>r. flf r = k) tbl \<noteq> []"
    by (auto simp: filter_empty_conv)
  have lab: "label g = k"
    by (simp add: g agg_group_def)
  show "mean (stat g c) = np_mean (map (cell c) (filter (\<lambda>r. flf r = label g) tbl))"
    by (simp add: lab) (simp add: g agg_group_def agg_of_def group_rows_def)
  show "std (stat g c) = np_std (map (cell c) (filter (\<lambda>r. flf r = label g) tbl))"
    by (simp add: lab) (simp add: g agg_group_def agg_of_def group_rows_def)
  show "cnt (stat g c) = length (filter (\<lambda>r. flf r = label g) tbl)"
    by (simp add: lab) (simp add: g agg_group_def agg_of_def group_rows_def)
  show "0 < cnt (stat g c)"
    using nonempty by (simp add: g agg_group_def agg_of_def group_rows_def)
qed

lemma str_int_small: "str_int 1 = ''1''" "str_int 7 = ''7''"
  by (simp_all add: str_int_def str_nat.simps digit_char_def)

lemma flf_f: "mk_flf ''m.py'' 1 ''f'' = ''m.py:1'' @ [CHR 0x0A] @ ''f()''"
  by (simp add: mk_flf_def str_int_small)

lemma flf_g: "mk_flf ''m.py'' 7 ''g'' = ''m.py:7'' @ [CHR 0x0A] @ ''g()''"
  by (simp add: mk_flf_def str_int_small)

lemma keys_ex:
  "group_keys [mk_row ((''m.py'', 7, ''g''), (1, 1, 5, 5)), mk_row ((''m.py'', 1, ''f''), (1, 1, 2, 2)),
               mk_row ((''m.py'', 1, ''f''), (1, 1, 4, 4)), mk_row ((''m.py'', 1, ''f''), (1, 1, 6, 6))]
   = [mk_flf ''m.py'' 1 ''f'', mk_flf ''m.py'' 7 ''g'']"
  by (simp add: group_keys_def flf_f flf_g)

lemma agg_one_label:
  "aggregate_profiling_df
     [mk_row ((''m.py'', 1, ''f''), (1, 1, x, x)), mk_row ((''m.py'', 1, ''f''), (1, 1, y, y)),
      mk_row ((''m.py'', 1, ''f''), (1, 1, z, z))]
   = [\<lparr> label = mk_flf ''m.py'' 1 ''f'',
         stat = (\<lambda>c. agg_of (map (cell c)
            [mk_row ((''m.py'', 1, ''f''), (1, 1, x, x)), mk_row ((''m.py'', 1, ''f''), (1, 1, y, y)),
             mk_row ((''m.py'', 1, ''f''), (1, 1, z, z))])) \<rparr>]"
  by (simp add: aggregate_profiling_df_def group_keys_def agg_group_def group_rows_def)

lemma stats_246: "np_mean [2, 4, 6] = 4" "np_std [2, 4, 6] = Num 2"
proof -
  show m: "np_mean [2, 4, 6] = 4"
    by (simp add: np_mean_def np_sum_def fl64_ints)
  show "np_std [2, 4, 6] = Num 2"
    by (simp add: np_std_def m np_sum_def fl64_ints fl64_zero)
qed

lemma mean_tenths:
  "np_mean [3602879701896397 / 2 ^ 55, 3602879701896397 / 2 ^ 54, 5404319552844595 / 2 ^ 54]
     = 7205759403792795 / 2 ^ 55"
  "np_mean [5404319552844595 / 2 ^ 54, 3602879701896397 / 2 ^ 54, 3602879701896397 / 2 ^ 55]
     = 7205759403792793 / 2 ^ 55"
  by (simp_all add: np_mean_def np_sum_def fl64_eval)

text \<open>
  The claim as stated fails on a table that holds the self times \<open>0.1\<close>, \<open>0.2\<close> and \<open>0.3\<close>
  of one function (as floats: \<open>3602879701896397 / 2^55\<close>, \<open>3602879701896397 / 2^54\<close> and
  \<open>5404319552844595 / 2^54\<close>): in this order of the rows their mean is
  \<open>0.20000000000000004\<close>, in the reverse order it is \<open>0.19999999999999998\<close>.
\<close>

theorem aggregate_order_counterexample:
  "mset [mk_row ((''m.py'', 1, ''f''), (1, 1, 3602879701896397 / 2 ^ 55, 3602879701896397 / 2 ^ 55)),
         mk_row ((''m.py'', 1, ''f''), (1, 1, 3602879701896397 / 2 ^ 54, 3602879701896397 / 2 ^ 54)),
         mk_row ((''m.py'', 1, ''f''), (1, 1, 5404319552844595 / 2 ^ 54, 5404319552844595 / 2 ^ 54))]
   = mset [mk_row ((''m.py'', 1, ''f''), (1, 1, 5404319552844595 / 2 ^ 54, 5404319552844595 / 2 ^ 54)),
           mk_row ((''m.py'', 1, ''f''), (1, 1, 3602879701896397 / 2 ^ 54, 3602879701896397 / 2 ^ 54)),
           mk_row ((''m.py'', 1, ''f''), (1, 1, 3602879701896397 / 2 ^ 55, 3602879701896397 / 2 ^ 55))]
   \<and> map (\<lambda>g. mean (stat g Tot_time)) (aggregate_profiling_df
        [mk_row ((''m.py'', 1, ''f''), (1, 1, 3602879701896397 / 2 ^ 55, 3602879701896397 / 2 ^ 55)),
         mk_row ((''m.py'', 1, ''f''), (1, 1, 3602879701896397 / 2 ^ 54, 3602879701896397 / 2 ^ 54)),
         mk_row ((''m.py'', 1, ''f''), (1, 1, 5404319552844595 / 2 ^ 54, 5404319552844595 / 2 ^ 54))])
       = [7205759403792795 / 2 ^ 55]
   \<and> map (\<lambda>g. mean (stat g Tot_time)) (aggregate_profiling_df
        [mk_row ((''m.py'', 1, ''f''), (1, 1, 5404319552844595 / 2 ^ 54, 5404319552844595 / 2 ^ 54)),
         mk_row ((''m.py'', 1, ''f''), (1, 1, 3602879701896397 / 2 ^ 54, 3602879701896397 / 2 ^ 54)),
         mk_row ((''m.py'', 1, ''f''), (1, 1, 3602879701896397 / 2 ^ 55, 3602879701896397 / 2 ^ 55))])
       = [7205759403792793 / 2 ^ 55]
   \<and> aggregate_profiling_df
        [mk_row ((''m.py'', 1, ''f''), (1, 1, 3602879701896397 / 2 ^ 55, 3602879701896397 / 2 ^ 55)),
         mk_row ((''m.py'', 1, ''f''), (1, 1, 3602879701896397 / 2 ^ 54, 3602879701896397 / 2 ^ 54)),
         mk_row ((''m.py'', 1, ''f''), (1, 1, 5404319552844595 / 2 ^ 54, 5404319552844595 / 2 ^ 54))]
     \<noteq> aggregate_profiling_df
        [mk_row ((''m.py'', 1, ''f''), (1, 1, 5404319552844595 / 2 ^ 54, 5404319552844595 / 2 ^ 54)),
         mk_row ((''m.py'', 1, ''f''), (1, 1, 3602879701896397 / 2 ^ 54, 3602879701896397 / 2 ^ 54)),
         mk_row ((''m.py'', 1, ''f''), (1, 1, 3602879701896397 / 2 ^ 55, 3602879701896397 / 2 ^ 55))]"
proof -
  define r1 where "r1 = mk_row ((''m.py'', 1, ''f''), (1, 1, 3602879701896397 / 2 ^ 55, 3602879701896397 / 2 ^ 55))"
  define r2 where "r2 = mk_row ((''m.py'', 1, ''f''), (1, 1, 3602879701896397 / 2 ^ 54, 3602879701896397 / 2 ^ 54))"
  define r3 where "r3 = mk_row ((''m.py'', 1, ''f''), (1, 1, 5404319552844595 / 2 ^ 54, 5404319552844595 / 2 ^ 54))"
  have cells: "cell Tot_time r1 = 3602879701896397 / 2 ^ 55" "cell Tot_time r2 = 3602879701896397 / 2 ^ 54"
      "cell Tot_time r3 = 5404319552844595 / 2 ^ 54"
    by (simp_all only: r1_def r2_def r3_def mk_row.simps cell.simps row.select_convs)
  have perm: "mset [r1, r2, r3] = mset [r3, r2, r1]"
    by (simp add: add_mset_commute)
  have up: "map (\<lambda>g. mean (stat g Tot_time)) (aggregate_profiling_df [r1, r2, r3]) = [7205759403792795 / 2 ^ 55]"
    unfolding r1_def r2_def r3_def agg_one_label
    unfolding r1_def [symmetric] r2_def [symmetric] r3_def [symmetric]
    by (simp only: list.map agg_row.select_convs agg.select_convs agg_of_def cells mean_tenths)
  have down: "map (\<lambda>g. mean (stat g Tot_time)) (aggregate_profiling_df [r3, r2, r1]) = [7205759403792793 / 2 ^ 55]"
    unfolding r1_def r2_def r3_def agg_one_label
    unfolding r1_def [symmetric] r2_def [symmetric] r3_def [symmetric]
    by (simp only: list.map agg_row.select_convs agg.select_convs agg_of_def cells mean_tenths)
  have "(7205759403792795 / 2 ^ 55 :: real) \<noteq> 7205759403792793 / 2 ^ 55"
    by simp
  with up down have differ: "aggregate_profiling_df [r1, r2, r3] \<noteq> aggregate_profiling_df [r3, r2, r1]"
    by auto
  from perm up down differ show ?thesis
    unfolding r1_def r2_def r3_def by blast
qed

theorem aggregate_by_label_witness:
  "map label (aggregate_profiling_df
     [mk_row ((''m.py'', 1, ''f''), (1, 1, 6, 6)), mk_row ((''m.py'', 1, ''f''), (1, 1, 4, 4)),
      mk_row ((''m.py'', 7, ''g''), (1, 1, 5, 5)), mk_row ((''m.py'', 1, ''f''), (1, 1, 2, 2))])
   = map label (aggregate_profiling_df
     [mk_row ((''m.py'', 7, ''g''), (1, 1, 5, 5)), mk_row ((''m.py'', 1, ''f''), (1, 1, 2, 2)),
      mk_row ((''m.py'', 1, ''f''), (1, 1, 4, 4)), mk_row ((''m.py'', 1, ''f''), (1, 1, 6, 6))])
   \<and> aggregate_profiling_df
     [mk_row ((''m.py'', 1, ''f''), (1, 1, 2, 2)), mk_row ((''m.py'', 1, ''f''), (1, 1, 4, 4)),
      mk_row ((''m.py'', 7, ''g''), (1, 1, 5, 5)), mk_row ((''m.py'', 1, ''f''), (1, 1, 6, 6))]
   = aggregate_profiling_df
     [mk_row ((''m.py'', 7, ''g''), (1, 1, 5, 5)), mk_row ((''m.py'', 1, ''f''), (1, 1, 2, 2)),
      mk_row ((''m.py'', 1, ''f''), (1, 1, 4, 4)), mk_row ((''m.py'', 1, ''f''), (1, 1, 6, 6))]
   \<and> map (\<lambda>a. (label a, mean (stat a Tot_time), std (stat a Tot_time), cnt (stat a Tot_time)))
         (aggregate_profiling_df
            [mk_row ((''m.py'', 7, ''g''), (1, 1, 5, 5)), mk_row ((''m.py'', 1, ''f''), (1, 1, 2, 2)),
             mk_row ((''m.py'', 1, ''f''), (1, 1, 4, 4)), mk_row ((''m.py'', 1, ''f''), (1, 1, 6, 6))])
       = [(mk_flf ''m.py'' 1 ''f'', 4, Num 2, 3), (mk_flf ''m.py'' 7 ''g'', 5, NaN, 1)]"
proof -
  define f2 where "f2 = mk_row ((''m.py'', 1, ''f''), (1, 1, 2, 2))"
  define f4 where "f4 = mk_row ((''m.py'', 1, ''f''), (1, 1, 4, 4))"
  define f6 where "f6 = mk_row ((''m.py'', 1, ''f''), (1, 1, 6, 6))"
  define g5 where "g5 = mk_row ((''m.py'', 7, ''g''), (1, 1, 5, 5))"
  have labs: "flf f2 = mk_flf ''m.py'' 1 ''f''" "flf f4 = mk_flf ''m.py'' 1 ''f''"
      "flf f6 = mk_flf ''m.py'' 1 ''f''" "flf g5 = mk_flf ''m.py'' 7 ''g''"
    by (simp_all add: f2_def f4_def f6_def g5_def)
  have perm: "mset [f6, f4, g5, f2] = mset [g5, f2, f4, f6]"
    by (simp add: add_mset_commute)
  have order: "\<forall>k. filter (\<lambda>r. flf r = k) [f2, f4, g5, f6] = filter (\<lambda>r. flf r = k) [g5, f2, f4, f6]"
    by (simp add: labs flf_f flf_g)
  from aggregate_by_label [of "[f6, f4, g5, f2]" "[g5, f2, f4, f6]"] perm
  have same_labels: "map label (aggregate_profiling_df [f6, f4, g5, f2])
      = map label (aggregate_profiling_df [g5, f2, f4, f6])"
    by blast
  from aggregate_by_label [of "[f2, f4, g5, f6]" "[g5, f2, f4, f6]"] order
  have same: "aggregate_profiling_df [f2, f4, g5, f6] = aggregate_profiling_df [g5, f2, f4, f6]"
    by blast
  have vals: "map (\<lambda>a. (label a, mean (stat a Tot_time), std (stat a Tot_time), cnt (stat a Tot_time)))
          (aggregate_profiling_df [g5, f2, f4, f6])
        = [(mk_flf ''m.py'' 1 ''f'', 4, Num 2, 3), (mk_flf ''m.py'' 7 ''g'', 5, NaN, 1)]"
    unfolding f2_def f4_def f6_def g5_def aggregate_profiling_df_def keys_ex
    by (simp add: agg_group_def group_rows_def agg_of_def flf_f flf_g stats_246
          np_mean_single np_std_single fl64_ints)
  from same_labels same vals show ?thesis
    unfolding f2_def f4_def f6_def g5_def by (simp only:)
qed

subsection \<open>Aggregation leaves its argument alone\<close>

text \<open>
  Claim C7. Aggregation does not change the table it is given: after the call the object
  at the argument's address is the same profiling table, every object that existed before
  is unchanged, and the result is a new object (its address did not exist before) that
  holds the aggregated table.
\<close>

theorem aggregate_keeps_input:
  assumes "a < length h" and "h ! a = Profile_table tbl"
  shows "\<exists>h' r. aggregate_profiling_df_store h a = Inr (h', r)
           \<and> h' ! a = Profile_table tbl
           \<and> (\<forall>b < length h. h' ! b = h ! b)
           \<and> length h \<le> r \<and> r < length h'
           \<and> h' ! r = Aggregated_table (aggregate_profiling_df tbl)"
proof -
  let ?A = "Aggregated_table (aggregate_profiling_df tbl)"
  have "aggregate_profiling_df_store h a = Inr (h @ [?A, ?A], Suc (length h))"
    using assms
    by (simp add: aggregate_profiling_df_store_def groupby_agg_def reset_index_def alloc_def nth_append)
  moreover have "(h @ [?A, ?A]) ! a = Profile_table tbl"
    using assms by (simp add: nth_append)
  moreover have "\<forall>b < length h. (h @ [?A, ?A]) ! b = h ! b"
    by (simp add: nth_append)
  moreover have "(h @ [?A, ?A]) ! Suc (length h) = ?A"
    by (simp add: nth_append)
  ultimately show ?thesis
    by simp
qed

theorem aggregate_keeps_input_witness:
  "\<exists>h' r. aggregate_profiling_df_store
             [Profile_table [mk_row ((''m.py'', 1, ''f''), (1, 1, 2, 2))]] 0 = Inr (h', r)
      \<and> h' ! 0 = Profile_table [mk_row ((''m.py'', 1, ''f''), (1, 1, 2, 2))]
      \<and> 1 \<le> r \<and> r < length h'
      \<and> h' ! r = Aggregated_table (aggregate_profiling_df [mk_row ((''m.py'', 1, ''f''), (1, 1, 2, 2))])"
  using aggregate_keeps_input
    [of 0 "[Profile_table [mk_row ((''m.py'', 1, ''f''), (1, 1, 2, 2))]]"
        "[mk_row ((''m.py'', 1, ''f''), (1, 1, 2, 2))]"]
  by simp

subsection \<open>Loading the module without seaborn\<close>

text \<open>
  Claim C8. When seaborn cannot be imported (and the modules that are imported without a
  guard can), loading the module completes: no exception leaves it, the name \<open>sns\<close> stays
  unbound, so that the bar chart can only raise, and the \<open>ImportError\<close> that was meant as
  a warning is built and dropped, never raised and never written anywhere.
\<close>

theorem load_without_seaborn:
  assumes "\<not> importable ''seaborn''"
    and "\<forall>m \<in> set [''numpy'', ''pandas'', ''matplotlib.pyplot'', ''cProfile'', ''pstats'']. importable m"
  shows "load_module importable style_ok =
           Inr \<lparr> sns_bound = False,
                 discarded = [ImportError ''seaborn not found, plotting not available''],
                 emitted = [] \<rparr>
       \<and> (\<forall>env. load_module importable style_ok = Inr env \<longrightarrow>
             barplot_top_n_functions env tbl n sort_criterium show_std \<in> {Inl KeyError, Inl NameError})"
proof -
  have "load_module importable style_ok =
          Inr \<lparr> sns_bound = False,
                discarded = [ImportError ''seaborn not found, plotting not available''],
                emitted = [] \<rparr>"
    using assms by (simp add: load_module_def guarded_import_def try_body_def)
  moreover have "barplot_top_n_functions env tbl n sort_criterium show_std \<in> {Inl KeyError, Inl NameError}"
    if "\<not> sns_bound env" for env
    using that by (simp add: barplot_top_n_functions_def Let_def split: option.splits)
  ultimately show ?thesis
    by simp
qed

theorem load_without_seaborn_witness:
  "load_module (\<lambda>m. m \<noteq> ''seaborn'') True =
     Inr \<lparr> sns_bound = False,
           discarded = [ImportError ''seaborn not found, plotting not available''],
           emitted = [] \<rparr>
   \<and> barplot_top_n_functions
         \<lparr> sns_bound = False,
           discarded = [ImportError ''seaborn not found, plotting not available''],
           emitted = [] \<rparr> [] 1 ''tot_time'' True = Inl NameError"
proof -
  have no: "\<not> (\<lambda>m. m \<noteq> ''seaborn'') ''seaborn''"
    by simp
  have yes: "\<forall>m \<in> set [''numpy'', ''pandas'', ''matplotlib.pyplot'', ''cProfile'', ''pstats''].
               (\<lambda>m. m \<noteq> ''seaborn'') m"
    by simp
  have col: "column_of_name ''tot_time'' = Some Tot_time"
    by (simp add: column_of_name_def)
  from load_without_seaborn [of "\<lambda>m. m \<noteq> ''seaborn''" True "[]" 1 "''tot_time''" True, OF no yes]
  show ?thesis
    by (auto simp: barplot_top_n_functions_def col Let_def)
qed

subsection \<open>The ranked bar chart\<close>

lemma mset_sort_desc: "mset (sort_desc k xs) = mset xs"
  by (simp add: sort_desc_def)

lemma sorted_sort_desc: "sorted (rev (map k (sort_desc k xs)))"
  by (simp add: sort_desc_def rev_map [symmetric])

lemma sort_desc_descending:
  assumes "i \<le> j" and "j < length xs"
  shows "k (sort_desc k xs ! j) \<le> k (sort_desc k xs ! i)"
proof -
  let ?ys = "sort_desc k xs"
  have len: "length ?ys = length xs"
    using mset_sort_desc [of k xs] by (rule mset_eq_length)
  let ?zs = "rev (map k ?ys)"
  have "sorted ?zs"
    by (rule sorted_sort_desc)
  moreover have "length ?zs - 1 - j \<le> length ?zs - 1 - i" and "length ?zs - 1 - i < length ?zs"
    using assms len by simp_all
  ultimately have "?zs ! (length ?zs - 1 - j) \<le> ?zs ! (length ?zs - 1 - i)"
    by (rule sorted_nth_mono)
  then show ?thesis
    using assms len by (simp add: rev_nth)
qed

lemma col_mean_fun: "col_mean c = (\<lambda>r. mean (stat r c))"
  by (rule ext) (simp add: col_mean_def)

lemma sort_desc_three:
  assumes "k c < k b" and "k b < k a" and "mset tbl = mset [a, b, c]"
  shows "sort_desc k tbl = [a, b, c]"
proof -
  from assms(3) have "set tbl = set [a, b, c]"
    by (rule mset_eq_setD)
  then have elems: "set tbl = {a, b, c}"
    by simp
  have "mset (rev tbl) = mset [c, b, a]"
    using assms(3) by (simp add: add_mset_commute)
  moreover have "inj_on k (set (rev tbl))"
    using assms(1,2) by (auto simp: elems inj_on_def)
  moreover have "sorted (map k [c, b, a])"
    using assms(1,2) by simp
  ultimately have "sort_key k (rev tbl) = [c, b, a]"
    by (rule sort_key_inj_key_eq)
  then show ?thesis
    by (simp add: sort_desc_def)
qed

lemma fl64_quarters: "fl64 (1 / 4) = 1 / 4" "fl64 (3 / 4) = 3 / 4" "fl64 25 = 25" "fl64 75 = 75"
  by (simp_all add: fl64_eval)

text \<open>
  Claim C1, as the code has it. For every aggregated table and every sort criterion that
  names a numeric column: the total time is the sum of the \<open>tot_time\<close> means over every
  row, whatever the sort criterion is; the rows are sorted by the mean of the sort
  criterion, largest first; for \<open>n \<ge> 0\<close> the first \<open>n\<close> of them are kept; the fraction is
  the sum of the \<open>tot_time\<close> means of the kept rows over that total; and a returned figure
  shows the kept rows and the truncated percentage. (Both sums are sums of floats, the
  first in the order of the table, the second in the sorted order.)
\<close>

theorem ranked_chart_fraction:
  assumes "column_of_name sort_criterium = Some s_c"
  shows "total_time tbl = np_sum (map (\<lambda>r. mean (stat r Tot_time)) tbl)
       \<and> mset (sort_desc (col_mean s_c) tbl) = mset tbl
       \<and> (\<forall>i j. i \<le> j \<and> j < length tbl \<longrightarrow>
             mean (stat (sort_desc (col_mean s_c) tbl ! j) s_c)
               \<le> mean (stat (sort_desc (col_mean s_c) tbl ! i) s_c))
       \<and> (0 \<le> n \<longrightarrow> top_n tbl n s_c = take (nat n) (sort_desc (col_mean s_c) tbl))
       \<and> frac_time tbl n s_c =
           np_div (np_sum (map (\<lambda>r. mean (stat r Tot_time)) (top_n tbl n s_c))) (total_time tbl)
       \<and> (\<forall>fig. barplot_top_n_functions env tbl n sort_criterium show_std = Inr fig \<longrightarrow>
             bars fig = top_n tbl n s_c
           \<and> py_int (np_times 100 (frac_time tbl n s_c)) \<noteq> Inl ValueError
           \<and> py_int (np_times 100 (frac_time tbl n s_c)) \<noteq> Inl OverflowError
           \<and> Inr (annotation fig) =
               map_sum id (\<lambda>p. str_int p @ ''% of total runtime'')
                 (py_int (np_times 100 (frac_time tbl n s_c))))"
proof (intro conjI allI impI)
  show "total_time tbl = np_sum (map (\<lambda>r. mean (stat r Tot_time)) tbl)"
    by (simp add: total_time_def col_mean_fun)
  show "mset (sort_desc (col_mean s_c) tbl) = mset tbl"
    by (rule mset_sort_desc)
  show "frac_time tbl n s_c =
          np_div (np_sum (map (\<lambda>r. mean (stat r Tot_time)) (top_n tbl n s_c))) (total_time tbl)"
    by (simp add: frac_time_def topn_time_def col_mean_fun)
next
  fix i j
  assume "i \<le> j \<and> j < length tbl"
  then have "col_mean s_c (sort_desc (col_mean s_c) tbl ! j) \<le> col_mean s_c (sort_desc (col_mean s_c) tbl ! i)"
    by (intro sort_desc_descending) simp_all
  then show "mean (stat (sort_desc (col_mean s_c) tbl ! j) s_c)
               \<le> mean (stat (sort_desc (col_mean s_c) tbl ! i) s_c)"
    by (simp add: col_mean_def)
next
  assume "0 \<le> n"
  then show "top_n tbl n s_c = take (nat n) (sort_desc (col_mean s_c) tbl)"
    by (simp add: top_n_def iloc_upto_def)
next
  fix fig
  assume fig: "barplot_top_n_functions env tbl n sort_criterium show_std = Inr fig"
  then obtain p where p: "py_int (np_times 100 (frac_time tbl n s_c)) = Inr p"
    and f: "fig = \<lparr> bars = top_n tbl n s_c,
                    xerr = (if show_std then Some (map (\<lambda>r. std (stat r s_c)) (top_n tbl n s_c)) else None),
                    xlabel = sort_criterium @ '' [s]'',
                    annotation = str_int p @ ''% of total runtime'' \<rparr>"
    using assms
    by (auto simp: barplot_top_n_functions_def Let_def split: if_splits sum.splits)
  show "bars fig = top_n tbl n s_c"
    by (simp add: f)
  show "py_int (np_times 100 (frac_time tbl n s_c)) \<noteq> Inl ValueError"
    by (simp add: p)
  show "py_int (np_times 100 (frac_time tbl n s_c)) \<noteq> Inl OverflowError"
    by (simp add: p)
  show "Inr (annotation fig) =
          map_sum id (\<lambda>p. str_int p @ ''% of total runtime'')
            (py_int (np_times 100 (frac_time tbl n s_c)))"
    by (simp add: p f)
qed


lemma flf_a: "mk_flf ''m.py'' 1 ''a'' = ''m.py:1'' @ [CHR 0x0A] @ ''a()''"
  by (simp add: mk_flf_def str_int_def str_nat.simps digit_char_def)

lemma flf_b: "mk_flf ''m.py'' 7 ''b'' = ''m.py:7'' @ [CHR 0x0A] @ ''b()''"
  by (simp add: mk_flf_def str_int_def str_nat.simps digit_char_def)

lemma agg_ab:
  "aggregate_profiling_df
     [mk_row ((''m.py'', 1, ''a''), (1, 1, 1, 5)), mk_row ((''m.py'', 7, ''b''), (1, 1, 3, 4))]
   = [\<lparr> label = mk_flf ''m.py'' 1 ''a'',
         stat = (\<lambda>c. agg_of [cell c (mk_row ((''m.py'', 1, ''a''), (1, 1, 1, 5)))]) \<rparr>,
      \<lparr> label = mk_flf ''m.py'' 7 ''b'',
         stat = (\<lambda>c. agg_of [cell c (mk_row ((''m.py'', 7, ''b''), (1, 1, 3, 4)))]) \<rparr>]"
  by (simp add: aggregate_profiling_df_def group_keys_def agg_group_def group_rows_def flf_a flf_b)

lemma str_int_25: "str_int 25 = ''25''"
  by (simp add: str_int_def str_nat.simps [of 25] str_nat.simps [of 2] digit_char_def)

text \<open>
  The claim as stated fails when the rows are ranked by another column than \<open>tot_time\<close>:
  ranked by \<open>cum_time\<close>, a table with self times 1 and 3 and cumulative times 5 and 4 has
  the total 4 (not 9), and its first row is reported as 25 percent (not 5/9).
\<close>

theorem total_time_counterexample:
  "total_time (aggregate_profiling_df
      [mk_row ((''m.py'', 1, ''a''), (1, 1, 1, 5)), mk_row ((''m.py'', 7, ''b''), (1, 1, 3, 4))]) = 4
   \<and> np_sum (map (col_mean Cum_time) (aggregate_profiling_df
      [mk_row ((''m.py'', 1, ''a''), (1, 1, 1, 5)), mk_row ((''m.py'', 7, ''b''), (1, 1, 3, 4))])) = 9
   \<and> map label (top_n (aggregate_profiling_df
      [mk_row ((''m.py'', 1, ''a''), (1, 1, 1, 5)), mk_row ((''m.py'', 7, ''b''), (1, 1, 3, 4))]) 1 Cum_time)
       = [mk_flf ''m.py'' 1 ''a'']
   \<and> frac_time (aggregate_profiling_df
      [mk_row ((''m.py'', 1, ''a''), (1, 1, 1, 5)), mk_row ((''m.py'', 7, ''b''), (1, 1, 3, 4))]) 1 Cum_time
       = Num (1 / 4)
   \<and> map_sum id annotation (barplot_top_n_functions \<lparr> sns_bound = True, discarded = [], emitted = [] \<rparr>
      (aggregate_profiling_df
      [mk_row ((''m.py'', 1, ''a''), (1, 1, 1, 5)), mk_row ((''m.py'', 7, ''b''), (1, 1, 3, 4))])
      1 ''cum_time'' False) = Inr ''25% of total runtime''"
  unfolding agg_ab
  by (simp add: total_time_def col_mean_fun agg_of_def np_mean_single np_sum_def fl64_ints
        fl64_quarters top_n_def iloc_upto_def sort_desc_def frac_time_def topn_time_def
        np_div_def barplot_top_n_functions_def column_of_name_def Let_def str_int_25)


lemma str_int_75: "str_int 75 = ''75''"
  by (simp add: str_int_def str_nat.simps [of 75] str_nat.simps [of 7] digit_char_def)

theorem ranked_chart_fraction_witness:
  "column_of_name ''tot_time'' = Some Tot_time
   \<and> total_time (aggregate_profiling_df
      [mk_row ((''m.py'', 1, ''a''), (1, 1, 1, 5)), mk_row ((''m.py'', 7, ''b''), (1, 1, 3, 4))]) = 4
   \<and> map label (top_n (aggregate_profiling_df
      [mk_row ((''m.py'', 1, ''a''), (1, 1, 1, 5)), mk_row ((''m.py'', 7, ''b''), (1, 1, 3, 4))]) 1 Tot_time)
       = [mk_flf ''m.py'' 7 ''b'']
   \<and> frac_time (aggregate_profiling_df
      [mk_row ((''m.py'', 1, ''a''), (1, 1, 1, 5)), mk_row ((''m.py'', 7, ''b''), (1, 1, 3, 4))]) 1 Tot_time
       = Num (3 / 4)
   \<and> map_sum id annotation (barplot_top_n_functions \<lparr> sns_bound = True, discarded = [], emitted = [] \<rparr>
      (aggregate_profiling_df
      [mk_row ((''m.py'', 1, ''a''), (1, 1, 1, 5)), mk_row ((''m.py'', 7, ''b''), (1, 1, 3, 4))])
      1 ''tot_time'' False) = Inr ''75% of total runtime''"
proof -
  define T where "T = aggregate_profiling_df
      [mk_row ((''m.py'', 1, ''a''), (1, 1, 1, 5)), mk_row ((''m.py'', 7, ''b''), (1, 1, 3, 4))]"
  define env where "env = \<lparr> sns_bound = True, discarded = [], emitted = [] \<rparr>"
  have col: "column_of_name ''tot_time'' = Some Tot_time"
    by (simp add: column_of_name_def)
  have srt: "map label (sort_desc (col_mean Tot_time) T) = [mk_flf ''m.py'' 7 ''b'', mk_flf ''m.py'' 1 ''a'']"
    unfolding T_def agg_ab
    by (simp add: sort_desc_def col_mean_fun agg_of_def np_mean_single fl64_ints)
  have tot: "np_sum (map (\<lambda>r. mean (stat r Tot_time)) T) = 4"
    unfolding T_def agg_ab by (simp add: agg_of_def np_mean_single np_sum_def fl64_ints)
  have top: "np_sum (map (\<lambda>r. mean (stat r Tot_time)) (take 1 (sort_desc (col_mean Tot_time) T))) = 3"
    unfolding T_def agg_ab
    by (simp add: sort_desc_def col_mean_fun agg_of_def np_mean_single np_sum_def fl64_ints)
  note R = ranked_chart_fraction [OF col, of T 1 env False]
  have total: "total_time T = 4"
    using R [THEN conjunct1] tot by (simp only:)
  have topn: "top_n T 1 Tot_time = take 1 (sort_desc (col_mean Tot_time) T)"
    using R [THEN conjunct2, THEN conjunct2, THEN conjunct2, THEN conjunct1] by simp
  have frac: "frac_time T 1 Tot_time =
        np_div (np_sum (map (\<lambda>r. mean (stat r Tot_time)) (top_n T 1 Tot_time))) (total_time T)"
    by (rule R [THEN conjunct2, THEN conjunct2, THEN conjunct2, THEN conjunct2, THEN conjunct1])
  have frac': "frac_time T 1 Tot_time = Num (3 / 4)"
    unfolding frac topn top total by (simp add: np_div_def fl64_quarters)
  have lab: "map label (top_n T 1 Tot_time) = [mk_flf ''m.py'' 7 ''b'']"
    unfolding topn take_map [symmetric] srt by simp
  then have "top_n T 1 Tot_time \<noteq> []"
    by auto
  then have ann: "map_sum id annotation (barplot_top_n_functions env T 1 ''tot_time'' False)
      = Inr ''75% of total runtime''"
    by (simp add: barplot_top_n_functions_def col Let_def frac' str_int_75 env_def fl64_quarters)
  from col total lab frac' ann show ?thesis
    unfolding T_def env_def by (simp only:)
qed

subsection \<open>The reported fraction\<close>






lemma flf_abc:
  "mk_flf ''m.py'' 1 ''A'' = ''m.py:1'' @ [CHR 0x0A] @ ''A()''"
  "mk_flf ''m.py'' 5 ''B'' = ''m.py:5'' @ [CHR 0x0A] @ ''B()''"
  "mk_flf ''m.py'' 9 ''C'' = ''m.py:9'' @ [CHR 0x0A] @ ''C()''"
  by (simp_all add: mk_flf_def str_int_def str_nat.simps digit_char_def)











subsection \<open>The example of three functions\<close>

lemma str_int_90: "str_int 90 = ''90''"
  by (simp add: str_int_def str_nat.simps [of 90] str_nat.simps [of 9] digit_char_def)

lemma np_sum_six_three_one:
  assumes "mset vs = mset [6, 3, 1 :: real]"
  shows "np_sum vs = 10"
proof -
  from assms have "length vs = length [6, 3, 1 :: real]"
    by (rule mset_eq_length)
  then obtain x y z where vs: "vs = [x, y, z]"
    by (auto simp: length_Suc_conv)
  from assms have "set vs = set [6, 3, 1 :: real]"
    by (rule mset_eq_setD)
  then have elems: "{x, y, z} = {6, 3, 1 :: real}"
    by (simp add: vs)
  have "distinct [6, 3, 1 :: real]"
    by simp
  with assms have "distinct vs"
    using mset_eq_imp_distinct_iff by blast
  then have dist: "x \<noteq> y" "x \<noteq> z" "y \<noteq> z"
    by (simp_all add: vs)
  from elems have "x \<in> {6, 3, 1}" and "y \<in> {6, 3, 1}" and "z \<in> {6, 3, 1}"
    by auto
  with dist have "[x, y, z] \<in> {[6, 3, 1], [6, 1, 3], [3, 6, 1], [3, 1, 6], [1, 6, 3], [1, 3, 6]}"
    by auto
  then show ?thesis
    unfolding vs by (auto simp: np_sum_def fl64_ints)
qed

lemma fl64_nine_tenths:
  "fl64 (9 / 10) = 8106479329266893 / 2 ^ 53"
  "fl64 (100 * fl64 (9 / 10)) = 90"
proof -
  show a: "fl64 (9 / 10) = 8106479329266893 / 2 ^ 53"
    by (simp add: fl64_eval)
  show "fl64 (100 * fl64 (9 / 10)) = 90"
    unfolding a by (simp add: fl64_eval)
qed

text \<open>
  Claim C9. For a table of three functions A, B and C whose mean self times are 6, 3 and
  1, in any row order, the two rows ranked first by self time are A and B, the total time
  is 10, the fraction is the float \<open>0.9\<close> (the quotient of the floats 9 and 10, rounded),
  and the figure is annotated \<open>90% of total runtime\<close>.
\<close>

theorem example_top_two:
  assumes "mean (stat a Tot_time) = 6" and "mean (stat b Tot_time) = 3"
    and "mean (stat c Tot_time) = 1"
    and "mset tbl = mset [a, b, c]"
    and "sns_bound env"
  shows "top_n tbl 2 Tot_time = [a, b]
       \<and> total_time tbl = 10
       \<and> frac_time tbl 2 Tot_time = Num (fl64 (9 / 10))
       \<and> barplot_top_n_functions env tbl 2 ''tot_time'' show_std =
           Inr \<lparr> bars = [a, b],
                 xerr = (if show_std then Some [std (stat a Tot_time), std (stat b Tot_time)] else None),
                 xlabel = ''tot_time [s]'',
                 annotation = ''90% of total runtime'' \<rparr>"
proof -
  have srt: "sort_desc (col_mean Tot_time) tbl = [a, b, c]"
    using assms(1-4) by (intro sort_desc_three) (simp_all add: col_mean_def)
  then have top: "top_n tbl 2 Tot_time = [a, b]"
    by (simp add: top_n_def iloc_upto_def)
  have "mset (map (col_mean Tot_time) tbl) = mset (map (col_mean Tot_time) [a, b, c])"
    by (simp only: mset_map assms(4))
  then have "mset (map (col_mean Tot_time) tbl) = mset [6, 3, 1]"
    using assms(1-3) by (simp add: col_mean_def)
  then have total: "total_time tbl = 10"
    unfolding total_time_def by (rule np_sum_six_three_one)
  have topn: "topn_time tbl 2 Tot_time = 9"
    using assms(1,2) by (simp add: topn_time_def top col_mean_def np_sum_def fl64_ints)
  have frac: "frac_time tbl 2 Tot_time = Num (fl64 (9 / 10))"
    by (simp add: frac_time_def topn total np_div_def)
  have col: "column_of_name ''tot_time'' = Some Tot_time"
    by (simp add: column_of_name_def)
  have "barplot_top_n_functions env tbl 2 ''tot_time'' show_std =
           Inr \<lparr> bars = [a, b],
                 xerr = (if show_std then Some [std (stat a Tot_time), std (stat b Tot_time)] else None),
                 xlabel = ''tot_time [s]'',
                 annotation = ''90% of total runtime'' \<rparr>"
    using assms(5)
    by (simp add: barplot_top_n_functions_def col Let_def top frac fl64_nine_tenths(2) str_int_90)
  with top total frac show ?thesis
    by simp
qed

lemma agg_abc:
  "aggregate_profiling_df
     [mk_row ((''m.py'', 9, ''C''), (1, 1, 1, 1)), mk_row ((''m.py'', 1, ''A''), (3, 3, 6, 6)),
      mk_row ((''m.py'', 5, ''B''), (1, 1, 3, 3))]
   = [\<lparr> label = mk_flf ''m.py'' 1 ''A'',
         stat = (\<lambda>c. agg_of [cell c (mk_row ((''m.py'', 1, ''A''), (3, 3, 6, 6)))]) \<rparr>,
      \<lparr> label = mk_flf ''m.py'' 5 ''B'',
         stat = (\<lambda>c. agg_of [cell c (mk_row ((''m.py'', 5, ''B''), (1, 1, 3, 3)))]) \<rparr>,
      \<lparr> label = mk_flf ''m.py'' 9 ''C'',
         stat = (\<lambda>c. agg_of [cell c (mk_row ((''m.py'', 9, ''C''), (1, 1, 1, 1)))]) \<rparr>]"
  by (simp add: aggregate_profiling_df_def group_keys_def agg_group_def group_rows_def flf_abc)

theorem example_top_two_witness:
  "get_df_from_stats
     [((''m.py'', 9, ''C''), (1, 1, 1, 1)), ((''m.py'', 1, ''A''), (3, 3, 6, 6)),
      ((''m.py'', 5, ''B''), (1, 1, 3, 3))]
    = Inr [mk_row ((''m.py'', 9, ''C''), (1, 1, 1, 1)), mk_row ((''m.py'', 1, ''A''), (3, 3, 6, 6)),
           mk_row ((''m.py'', 5, ''B''), (1, 1, 3, 3))]
   \<and> total_time (aggregate_profiling_df
         [mk_row ((''m.py'', 9, ''C''), (1, 1, 1, 1)), mk_row ((''m.py'', 1, ''A''), (3, 3, 6, 6)),
          mk_row ((''m.py'', 5, ''B''), (1, 1, 3, 3))]) = 10
   \<and> frac_time (aggregate_profiling_df
         [mk_row ((''m.py'', 9, ''C''), (1, 1, 1, 1)), mk_row ((''m.py'', 1, ''A''), (3, 3, 6, 6)),
          mk_row ((''m.py'', 5, ''B''), (1, 1, 3, 3))]) 2 Tot_time = Num (8106479329266893 / 2 ^ 53)
   \<and> map_sum id (\<lambda>fig. (map label (bars fig), xlabel fig, annotation fig))
         (barplot_top_n_functions \<lparr> sns_bound = True, discarded = [], emitted = [] \<rparr>
            (aggregate_profiling_df
               [mk_row ((''m.py'', 9, ''C''), (1, 1, 1, 1)), mk_row ((''m.py'', 1, ''A''), (3, 3, 6, 6)),
                mk_row ((''m.py'', 5, ''B''), (1, 1, 3, 3))])
            2 ''tot_time'' False)
       = Inr ([mk_flf ''m.py'' 1 ''A'', mk_flf ''m.py'' 5 ''B''], ''tot_time [s]'', ''90% of total runtime'')"
proof -
  define T where "T = aggregate_profiling_df
     [mk_row ((''m.py'', 9, ''C''), (1, 1, 1, 1)), mk_row ((''m.py'', 1, ''A''), (3, 3, 6, 6)),
      mk_row ((''m.py'', 5, ''B''), (1, 1, 3, 3))]"
  define env where "env = \<lparr> sns_bound = True, discarded = [], emitted = [] \<rparr>"
  define gA where "gA = \<lparr> label = mk_flf ''m.py'' 1 ''A'',
         stat = (\<lambda>c. agg_of [cell c (mk_row ((''m.py'', 1, ''A''), (3, 3, 6, 6)))]) \<rparr>"
  define gB where "gB = \<lparr> label = mk_flf ''m.py'' 5 ''B'',
         stat = (\<lambda>c. agg_of [cell c (mk_row ((''m.py'', 5, ''B''), (1, 1, 3, 3)))]) \<rparr>"
  define gC where "gC = \<lparr> label = mk_flf ''m.py'' 9 ''C'',
         stat = (\<lambda>c. agg_of [cell c (mk_row ((''m.py'', 9, ''C''), (1, 1, 1, 1)))]) \<rparr>"
  have T: "T = [gA, gB, gC]"
    unfolding T_def gA_def gB_def gC_def by (rule agg_abc)
  have means: "mean (stat gA Tot_time) = 6" "mean (stat gB Tot_time) = 3" "mean (stat gC Tot_time) = 1"
    by (simp_all add: gA_def gB_def gC_def agg_of_def np_mean_single fl64_ints)
  have perm: "mset T = mset [gA, gB, gC]"
    by (simp only: T)
  have sns: "sns_bound env"
    by (simp add: env_def)
  note R = example_top_two [OF means perm sns, of False]
  have total: "total_time T = 10"
    using R by blast
  have "frac_time T 2 Tot_time = Num (fl64 (9 / 10))"
    using R by blast
  then have frac: "frac_time T 2 Tot_time = Num (8106479329266893 / 2 ^ 53)"
    by (simp only: fl64_nine_tenths)
  have "barplot_top_n_functions env T 2 ''tot_time'' False =
           Inr \<lparr> bars = [gA, gB], xerr = None, xlabel = ''tot_time [s]'',
                 annotation = ''90% of total runtime'' \<rparr>"
    using R by simp
  then have fig: "map_sum id (\<lambda>fig. (map label (bars fig), xlabel fig, annotation fig))
         (barplot_top_n_functions env T 2 ''tot_time'' False)
       = Inr ([mk_flf ''m.py'' 1 ''A'', mk_flf ''m.py'' 5 ''B''], ''tot_time [s]'', ''90% of total runtime'')"
    by (simp add: gA_def gB_def)
  have load: "get_df_from_stats
     [((''m.py'', 9, ''C''), (1, 1, 1, 1)), ((''m.py'', 1, ''A''), (3, 3, 6, 6)),
      ((''m.py'', 5, ''B''), (1, 1, 3, 3))]
    = Inr [mk_row ((''m.py'', 9, ''C''), (1, 1, 1, 1)), mk_row ((''m.py'', 1, ''A''), (3, 3, 6, 6)),
           mk_row ((''m.py'', 5, ''B''), (1, 1, 3, 3))]"
    by (simp add: get_df_from_stats_def)
  from load total frac fig show ?thesis
    unfolding T_def env_def by (simp only:)
qed

end
